theory Spec2Isabelle
  imports Complex_Main
begin

section \<open>Data model of the toolpath interpreter (GcodeManager.py)\<close>

text \<open>
  Python floats are modelled as \<^typ>\<open>real\<close>: exact arithmetic, no rounding, no
  infinities. The one place of the program where a not-a-number value decides the
  control flow (the camera planner) models it explicitly, see \<open>npfloat\<close> below.
  A field of a command that is \<open>None\<close> in Python is \<open>None\<close> here.
\<close>

type_synonym vec3 = "real \<times> real \<times> real"

text \<open>\<open>class Segment\<close>: the fields \<open>start\<close> and \<open>end\<close>.\<close>

record Segment =
  seg_start :: vec3
  seg_end :: vec3

text \<open>\<open>class GcodeCommand\<close>: the token \<open>type\<close> and the nine optional numbers.\<close>

record GcodeCommand =
  ctype :: string
  X :: "real option"
  Y :: "real option"
  Z :: "real option"
  E :: "real option"
  F :: "real option"
  I :: "real option"
  J :: "real option"
  K :: "real option"
  R :: "real option"

text \<open>\<open>class GcodeManager\<close>: the interpreter state and the segments collected so far.\<close>

record GcodeManager =
  nozzle_x :: real
  nozzle_y :: real
  nozzle_z :: real
  absolute_movement :: bool
  segments :: "Segment list"

definition init_manager :: GcodeManager where
  "init_manager =
     \<lparr>nozzle_x = 0, nozzle_y = 0, nozzle_z = 0, absolute_movement = True, segments = []\<rparr>"

definition nozzle :: "GcodeManager \<Rightarrow> vec3" where
  "nozzle self = (nozzle_x self, nozzle_y self, nozzle_z self)"

section \<open>Linear moves: \<open>update_position\<close>\<close>

text \<open>
  Python's truth value of an optional float, as tested by \<open>if command.X:\<close>:
  \<open>None\<close> is false, and so is the number zero.
\<close>

definition truthy :: "real option \<Rightarrow> bool" where
  "truthy v = (case v of None \<Rightarrow> False | Some a \<Rightarrow> a \<noteq> 0)"

text \<open>\<open>v if v is not None else d\<close>\<close>

definition or_else :: "real option \<Rightarrow> real \<Rightarrow> real" where
  "or_else v d = (case v of None \<Rightarrow> d | Some a \<Rightarrow> a)"

text \<open>
  One axis of the absolute branch,
  \<open>if command.X: self.nozzle_x = command.X if command.X is not None else self.nozzle_x\<close>,
  and of the relative branch, \<open>if command.X: self.nozzle_x += command.X\<close>.
\<close>

definition abs_axis :: "real \<Rightarrow> real option \<Rightarrow> real" where
  "abs_axis cur v = (if truthy v then or_else v cur else cur)"

definition rel_axis :: "real \<Rightarrow> real option \<Rightarrow> real" where
  "rel_axis cur v = (if truthy v then cur + or_else v 0 else cur)"

text \<open>\<open>command.E is not None and command.E > 0\<close>\<close>

definition positive_E :: "GcodeCommand \<Rightarrow> bool" where
  "positive_E command = (case E command of None \<Rightarrow> False | Some e \<Rightarrow> e > 0)"

text \<open>
  \<open>update_position\<close> mutates the nozzle position and returns the pair
  \<open>(old_pos, new_pos)\<close>, or \<open>(None, None)\<close>; the model returns the updated state with it.
\<close>

definition update_position ::
  "GcodeManager \<Rightarrow> GcodeCommand \<Rightarrow> GcodeManager \<times> vec3 option \<times> vec3 option" where
  "update_position self command =
     (let old_x = nozzle_x self; old_y = nozzle_y self; old_z = nozzle_z self;
          self1 =
            (if absolute_movement self then
               self\<lparr>nozzle_x := abs_axis old_x (X command),
                    nozzle_y := abs_axis old_y (Y command),
                    nozzle_z := abs_axis old_z (Z command)\<rparr>
             else
               self\<lparr>nozzle_x := rel_axis old_x (X command),
                    nozzle_y := rel_axis old_y (Y command),
                    nozzle_z := rel_axis old_z (Z command)\<rparr>)
      in if nozzle_x self1 < 0 \<or> nozzle_y self1 < 0 \<or> nozzle_z self1 < 0
         then (self1, None, None)
         else if positive_E command
                 \<and> (X command \<noteq> None \<or> Y command \<noteq> None \<or> Z command \<noteq> None)
         then (self1, Some (old_x, old_y, old_z),
                      Some (nozzle_x self1, nozzle_y self1, nozzle_z self1))
         else (self1, None, None))"

section \<open>Arc moves: \<open>process_arc\<close>\<close>

text \<open>The end position of the move, from the command and the positioning mode.\<close>

definition arc_end :: "GcodeManager \<Rightarrow> GcodeCommand \<Rightarrow> vec3" where
  "arc_end self command =
     (if absolute_movement self then
        (or_else (X command) (nozzle_x self),
         or_else (Y command) (nozzle_y self),
         or_else (Z command) (nozzle_z self))
      else
        (nozzle_x self + or_else (X command) 0,
         nozzle_y self + or_else (Y command) 0,
         nozzle_z self + or_else (Z command) 0))"

definition arc_center :: "GcodeManager \<Rightarrow> GcodeCommand \<Rightarrow> vec3" where
  "arc_center self command =
     (nozzle_x self + or_else (I command) 0,
      nozzle_y self + or_else (J command) 0,
      nozzle_z self + or_else (K command) 0)"

definition arc_radius :: "GcodeManager \<Rightarrow> GcodeCommand \<Rightarrow> real" where
  "arc_radius self command =
     (case arc_center self command of (center_x, center_y, center_z) \<Rightarrow>
        sqrt ((nozzle_x self - center_x)\<^sup>2 + (nozzle_y self - center_y)\<^sup>2))"

text \<open>\<open>math.atan2(y, x)\<close>: the angle of the point \<open>(x, y)\<close>, in \<open>(-pi, pi]\<close>.\<close>

definition atan2 :: "real \<Rightarrow> real \<Rightarrow> real" where
  "atan2 y x =
     (if x > 0 then arctan (y / x)
      else if x < 0 then (if y \<ge> 0 then arctan (y / x) + pi else arctan (y / x) - pi)
      else if y > 0 then pi / 2
      else if y < 0 then - (pi / 2)
      else 0)"

definition arc_start_angle :: "GcodeManager \<Rightarrow> GcodeCommand \<Rightarrow> real" where
  "arc_start_angle self command =
     (case arc_center self command of (center_x, center_y, center_z) \<Rightarrow>
        atan2 (nozzle_y self - center_y) (nozzle_x self - center_x))"

definition arc_end_angle :: "GcodeManager \<Rightarrow> GcodeCommand \<Rightarrow> real" where
  "arc_end_angle self command =
     (case arc_center self command of (center_x, center_y, center_z) \<Rightarrow>
      case arc_end self command of (end_x, end_y, end_z) \<Rightarrow>
        atan2 (end_y - center_y) (end_x - center_x))"

text \<open>The angular span, corrected for the direction of the arc.\<close>

definition arc_angle_diff :: "GcodeManager \<Rightarrow> GcodeCommand \<Rightarrow> bool \<Rightarrow> real" where
  "arc_angle_diff self command clockwise =
     (let angle_diff = arc_end_angle self command - arc_start_angle self command
      in if clockwise then (if angle_diff > 0 then angle_diff - 2 * pi else angle_diff)
         else (if angle_diff < 0 then angle_diff + 2 * pi else angle_diff))"

text \<open>Python's \<open>int\<close> of a float truncates towards zero.\<close>

definition py_int :: "real \<Rightarrow> int" where
  "py_int a = (if a \<ge> 0 then \<lfloor>a\<rfloor> else \<lceil>a\<rceil>)"

definition arc_num_segments :: "GcodeManager \<Rightarrow> GcodeCommand \<Rightarrow> bool \<Rightarrow> int" where
  "arc_num_segments self command clockwise =
     (let arc_length = \<bar>arc_angle_diff self command clockwise\<bar> * arc_radius self command
      in max 4 (py_int (arc_length / 1.0)))"

text \<open>The point \<open>(seg_x, seg_y, seg_z)\<close> that iteration \<open>i\<close> of the loop computes.\<close>

definition arc_point :: "GcodeManager \<Rightarrow> GcodeCommand \<Rightarrow> bool \<Rightarrow> int \<Rightarrow> vec3" where
  "arc_point self command clockwise i =
     (case arc_center self command of (center_x, center_y, center_z) \<Rightarrow>
      case arc_end self command of (end_x, end_y, end_z) \<Rightarrow>
        let num_segments = arc_num_segments self command clockwise;
            radius = arc_radius self command;
            z_step = (if num_segments > 0
                      then (end_z - nozzle_z self) / real_of_int num_segments else 0);
            t = real_of_int i / real_of_int num_segments;
            angle = arc_start_angle self command + arc_angle_diff self command clockwise * t
        in if i = num_segments then (end_x, end_y, end_z)
           else (center_x + radius * cos angle,
                 center_y + radius * sin angle,
                 nozzle_z self + z_step * real_of_int i))"

text \<open>
  The loop \<open>for i in range(1, num_segments + 1)\<close>: it carries the previous point and
  appends one pair per iteration.
\<close>

fun arc_loop ::
  "(int \<Rightarrow> vec3) \<Rightarrow> int list \<Rightarrow> vec3 \<Rightarrow> (vec3 \<times> vec3) list \<Rightarrow> (vec3 \<times> vec3) list" where
  "arc_loop point [] prev segs = segs"
| "arc_loop point (i # rest) prev segs =
     (let seg = point i in arc_loop point rest seg (segs @ [(prev, seg)]))"

definition process_arc ::
  "GcodeManager \<Rightarrow> GcodeCommand \<Rightarrow> bool \<Rightarrow> GcodeManager \<times> (vec3 \<times> vec3) list" where
  "process_arc self command clockwise =
     (let old = (nozzle_x self, nozzle_y self, nozzle_z self);
          end_pos = arc_end self command;
          moved = (case end_pos of (end_x, end_y, end_z) \<Rightarrow>
                     self\<lparr>nozzle_x := end_x, nozzle_y := end_y, nozzle_z := end_z\<rparr>)
      in if nozzle_x self < 0 \<or> nozzle_y self < 0 \<or> nozzle_z self < 0
         then (moved, [])
         else if arc_radius self command < 0.001
         then (moved, if positive_E command then [(old, end_pos)] else [])
         else (moved,
               if positive_E command
               then arc_loop (arc_point self command clockwise)
                      [1 .. arc_num_segments self command clockwise] old []
               else []))"

section \<open>The command loop of \<open>parse_gcode\<close>\<close>

text \<open>
  The body of the loop once the line is a command: the \<open>match\<close> on the type and the
  final append of a linear segment. An unknown type falls through every case.
\<close>

definition mk_segment :: "vec3 \<times> vec3 \<Rightarrow> Segment" where
  "mk_segment p = \<lparr>seg_start = fst p, seg_end = snd p\<rparr>"

definition dispatch :: "GcodeManager \<Rightarrow> GcodeCommand \<Rightarrow> GcodeManager" where
  "dispatch self command =
     (let t = ctype command in
      if t = '';'' then self
      else if t = ''G90'' then self\<lparr>absolute_movement := True\<rparr>
      else if t = ''G91'' then self\<lparr>absolute_movement := False\<rparr>
      else if t = ''G92'' then self
      else if t = ''G0'' \<or> t = ''G1'' then
        (case update_position self command of (self1, old_pos, new_pos) \<Rightarrow>
           (case old_pos of
              None \<Rightarrow> self1
            | Some a \<Rightarrow>
                (case new_pos of
                   None \<Rightarrow> self1
                 | Some b \<Rightarrow> self1\<lparr>segments := segments self1 @ [mk_segment (a, b)]\<rparr>)))
      else if t = ''G2'' \<or> t = ''G3'' then
        (case process_arc self command (t = ''G2'') of (self1, arc_segments) \<Rightarrow>
           self1\<lparr>segments := segments self1 @ map mk_segment arc_segments\<rparr>)
      else self)"

section \<open>Parsing: \<open>GcodeCommand.__init__\<close> and \<open>parse_gcode\<close>\<close>

text \<open>
  The exceptions that the modelled code can raise. The input text is taken to be ASCII,
  one \<^typ>\<open>char\<close> per character.
\<close>

datatype error = IndexError | TypeError | UnboundLocalError | ValueError | GpuError

text \<open>The ASCII characters that \<open>str.split()\<close> treats as white space.\<close>

definition is_space :: "char \<Rightarrow> bool" where
  "is_space c = (let n = (of_char c :: nat) in (9 \<le> n \<and> n \<le> 13) \<or> (28 \<le> n \<and> n \<le> 32))"

text \<open>\<open>str.split()\<close>: the maximal runs of characters that are not white space.\<close>

fun split_from :: "string \<Rightarrow> string \<Rightarrow> string list" where
  "split_from [] cur = (if cur = [] then [] else [rev cur])"
| "split_from (c # cs) cur =
     (if is_space c
      then (if cur = [] then split_from cs [] else rev cur # split_from cs [])
      else split_from cs (c # cur))"

definition split_ws :: "string \<Rightarrow> string list" where
  "split_ws s = split_from s []"

text \<open>
  The ASCII line boundaries of \<open>str.splitlines()\<close>; a carriage return followed by a
  line feed is one boundary, and a boundary at the very end opens no further line.
\<close>

definition is_linebreak :: "char \<Rightarrow> bool" where
  "is_linebreak c = (let n = (of_char c :: nat) in (10 \<le> n \<and> n \<le> 13) \<or> (28 \<le> n \<and> n \<le> 30))"

fun lines_from :: "string \<Rightarrow> string \<Rightarrow> string list" where
  "lines_from [] cur = (if cur = [] then [] else [rev cur])"
| "lines_from (c # cs) cur =
     (if is_linebreak c
      then rev cur #
           (case cs of
              [] \<Rightarrow> lines_from cs []
            | d # ds \<Rightarrow>
                if (of_char c :: nat) = 13 \<and> (of_char d :: nat) = 10
                then lines_from ds [] else lines_from cs [])
      else lines_from cs (c # cur))"

definition splitlines :: "string \<Rightarrow> string list" where
  "splitlines s = lines_from s []"

definition empty_command :: "string \<Rightarrow> GcodeCommand" where
  "empty_command t =
     \<lparr>ctype = t, X = None, Y = None, Z = None, E = None, F = None,
      I = None, J = None, K = None, R = None\<rparr>"

text \<open>
  \<open>self.X = float(param[1:]) if len(param) > 1 else None\<close> inside the \<open>try\<close>: the
  conversion \<open>float\<close> is the parameter \<open>pyfloat\<close>, with \<open>None\<close> for the \<open>ValueError\<close>
  that the \<open>except\<close> clause swallows, leaving the command as it was.
\<close>

definition assign_field ::
  "(string \<Rightarrow> real option) \<Rightarrow> string \<Rightarrow> (real option \<Rightarrow> GcodeCommand) \<Rightarrow> GcodeCommand
     \<Rightarrow> GcodeCommand" where
  "assign_field pyfloat param store command =
     (if length param > 1
      then (case pyfloat (tl param) of None \<Rightarrow> command | Some v \<Rightarrow> store (Some v))
      else store None)"

definition set_param :: "(string \<Rightarrow> real option) \<Rightarrow> string \<Rightarrow> GcodeCommand \<Rightarrow> GcodeCommand" where
  "set_param pyfloat param command =
     (case param of
        [] \<Rightarrow> command
      | c # num \<Rightarrow>
          if c = CHR ''X'' then assign_field pyfloat param (\<lambda>v. command\<lparr>X := v\<rparr>) command
          else if c = CHR ''Y'' then assign_field pyfloat param (\<lambda>v. command\<lparr>Y := v\<rparr>) command
          else if c = CHR ''Z'' then assign_field pyfloat param (\<lambda>v. command\<lparr>Z := v\<rparr>) command
          else if c = CHR ''E'' then assign_field pyfloat param (\<lambda>v. command\<lparr>E := v\<rparr>) command
          else if c = CHR ''F'' then assign_field pyfloat param (\<lambda>v. command\<lparr>F := v\<rparr>) command
          else if c = CHR ''I'' then assign_field pyfloat param (\<lambda>v. command\<lparr>I := v\<rparr>) command
          else if c = CHR ''J'' then assign_field pyfloat param (\<lambda>v. command\<lparr>J := v\<rparr>) command
          else if c = CHR ''K'' then assign_field pyfloat param (\<lambda>v. command\<lparr>K := v\<rparr>) command
          else if c = CHR ''R'' then assign_field pyfloat param (\<lambda>v. command\<lparr>R := v\<rparr>) command
          else command)"

text \<open>
  The loop over \<open>split[1:]\<close>: it stops at a token that starts a comment, and cuts a
  token at an inline comment marker before reading it.
\<close>

fun parse_params ::
  "(string \<Rightarrow> real option) \<Rightarrow> string list \<Rightarrow> GcodeCommand \<Rightarrow> GcodeCommand" where
  "parse_params pyfloat [] command = command"
| "parse_params pyfloat (param # rest) command =
     (if take 1 param = '';'' then command
      else parse_params pyfloat rest
             (set_param pyfloat (takeWhile (\<lambda>c. c \<noteq> CHR '';'') param) command))"

text \<open>The constructor: \<open>split[0]\<close> raises \<open>IndexError\<close> when the line has no token.\<close>

definition GcodeCommand_init ::
  "(string \<Rightarrow> real option) \<Rightarrow> string \<Rightarrow> error + GcodeCommand" where
  "GcodeCommand_init pyfloat command_string =
     (case split_ws command_string of
        [] \<Rightarrow> Inl IndexError
      | t # params \<Rightarrow> Inr (parse_params pyfloat params (empty_command t)))"

text \<open>
  The loop over the lines. No exception is caught here, so the first one ends the
  parse (and so the construction of the manager).
\<close>

fun parse_lines ::
  "(string \<Rightarrow> real option) \<Rightarrow> GcodeManager \<Rightarrow> string list \<Rightarrow> error + GcodeManager" where
  "parse_lines pyfloat self [] = Inr self"
| "parse_lines pyfloat self (line # rest) =
     (if length line = 0 \<or> take 1 line = '';'' then parse_lines pyfloat self rest
      else (case GcodeCommand_init pyfloat line of
              Inl e \<Rightarrow> Inl e
            | Inr command \<Rightarrow> parse_lines pyfloat (dispatch self command) rest))"

definition parse_gcode :: "(string \<Rightarrow> real option) \<Rightarrow> string \<Rightarrow> error + GcodeManager" where
  "parse_gcode pyfloat gcode_content = parse_lines pyfloat init_manager (splitlines gcode_content)"

text \<open>\<open>min\<close> and \<open>max\<close> of a Python list, which \<open>get_bounds\<close> calls on non-empty lists.\<close>

record Bounds =
  min_x :: real
  max_x :: real
  min_y :: real
  max_y :: real
  min_z :: real
  max_z :: real

definition py_min :: "real list \<Rightarrow> real" where
  "py_min xs = fold min (tl xs) (hd xs)"

definition py_max :: "real list \<Rightarrow> real" where
  "py_max xs = fold max (tl xs) (hd xs)"

definition get_bounds :: "Segment list \<Rightarrow> Bounds option" where
  "get_bounds segs =
     (if segs = [] then None
      else
        (let all_x = concat (map (\<lambda>s. [fst (seg_start s), fst (seg_end s)]) segs);
             all_y = concat (map (\<lambda>s. [fst (snd (seg_start s)), fst (snd (seg_end s))]) segs);
             all_z = concat (map (\<lambda>s. [snd (snd (seg_start s)), snd (snd (seg_end s))]) segs)
         in Some \<lparr>min_x = py_min all_x, max_x = py_max all_x,
                  min_y = py_min all_y, max_y = py_max all_y,
                  min_z = py_min all_z, max_z = py_max all_z\<rparr>))"

section \<open>Tube mesh: \<open>Renderer.get_segment_vertices\<close>\<close>

definition vadd :: "vec3 \<Rightarrow> vec3 \<Rightarrow> vec3" where
  "vadd a b = (case a of (ax, ay, az) \<Rightarrow> case b of (bx, by, bz) \<Rightarrow> (ax + bx, ay + by, az + bz))"

definition vsub :: "vec3 \<Rightarrow> vec3 \<Rightarrow> vec3" where
  "vsub a b = (case a of (ax, ay, az) \<Rightarrow> case b of (bx, by, bz) \<Rightarrow> (ax - bx, ay - by, az - bz))"

definition vscale :: "real \<Rightarrow> vec3 \<Rightarrow> vec3" where
  "vscale k a = (case a of (ax, ay, az) \<Rightarrow> (k * ax, k * ay, k * az))"

definition vdiv :: "vec3 \<Rightarrow> real \<Rightarrow> vec3" where
  "vdiv a k = (case a of (ax, ay, az) \<Rightarrow> (ax / k, ay / k, az / k))"

definition vneg :: "vec3 \<Rightarrow> vec3" where
  "vneg a = (case a of (ax, ay, az) \<Rightarrow> (- ax, - ay, - az))"

text \<open>\<open>np.cross\<close> and \<open>np.linalg.norm\<close> on vectors of three components.\<close>

definition cross :: "vec3 \<Rightarrow> vec3 \<Rightarrow> vec3" where
  "cross a b =
     (case a of (ax, ay, az) \<Rightarrow> case b of (bx, by, bz) \<Rightarrow>
        (ay * bz - az * by, az * bx - ax * bz, ax * by - ay * bx))"

definition norm3 :: "vec3 \<Rightarrow> real" where
  "norm3 a = (case a of (ax, ay, az) \<Rightarrow> sqrt (ax\<^sup>2 + ay\<^sup>2 + az\<^sup>2))"

definition up :: vec3 where
  "up = (0, 0, 1)"

text \<open>The unit direction of the segment, and its fallback for a segment of no length.\<close>

definition seg_direction :: "Segment \<Rightarrow> vec3" where
  "seg_direction segment =
     (let direction = vsub (seg_end segment) (seg_start segment);
          direction_norm = norm3 direction
      in if direction_norm > 0 then vdiv direction direction_norm else (1, 0, 0))"

text \<open>The vector \<open>right\<close>, and its fallback when the direction is parallel to \<open>up\<close>.\<close>

definition seg_right :: "Segment \<Rightarrow> vec3" where
  "seg_right segment =
     (let right = cross (seg_direction segment) up;
          right_norm = norm3 right
      in if right_norm > 0 then vdiv right right_norm else (1, 0, 0))"

definition calculate_normal :: "vec3 \<Rightarrow> vec3 \<Rightarrow> vec3 \<Rightarrow> vec3" where
  "calculate_normal v0 v1 v2 =
     (let edge1 = vsub v1 v0;
          edge2 = vsub v2 v0;
          normal = cross edge1 edge2;
          norm = norm3 normal
      in if norm > 0 then vdiv normal norm else (0, 0, 1))"

text \<open>
  An array from \<open>np.empty\<close>: a row is \<open>None\<close> until the code writes it, so that a row
  left unwritten shows in the result.
\<close>

type_synonym varray = "vec3 option list"

text \<open>
  \<open>add_triangle\<close> writes three rows of each array from \<open>idx\<close> on; the two arrays are
  the state it shares with its caller.
\<close>

definition add_triangle ::
  "nat \<Rightarrow> vec3 \<Rightarrow> vec3 \<Rightarrow> vec3 \<Rightarrow> varray \<times> varray \<Rightarrow> varray \<times> varray" where
  "add_triangle idx v0 v1 v2 arrays =
     (case arrays of (segment_vertices, segment_normals) \<Rightarrow>
        let normal = calculate_normal v0 v1 v2
        in (segment_vertices[idx := Some v0, idx + 1 := Some v1, idx + 2 := Some v2],
            segment_normals[idx := Some normal, idx + 1 := Some normal, idx + 2 := Some normal]))"

definition get_segment_vertices :: "Segment \<Rightarrow> real \<Rightarrow> real \<Rightarrow> varray \<times> varray" where
  "get_segment_vertices segment width height =
     (let start = seg_start segment;
          end_pos = seg_end segment;
          right = seg_right segment;
          half_width = width / 2;
          half_height = height / 2;
          start_v = [vadd start (vscale half_height up),
                     vadd start (vscale half_width right),
                     vadd start (vscale half_height (vneg up)),
                     vadd start (vscale half_width (vneg right))];
          end_v = [vadd end_pos (vscale half_height up),
                   vadd end_pos (vscale half_width right),
                   vadd end_pos (vscale half_height (vneg up)),
                   vadd end_pos (vscale half_width (vneg right))];
          TOP = (0::nat); RIGHT = (1::nat); BOTTOM = (2::nat); LEFT = (3::nat);
          a0 = (replicate 36 None, replicate 36 None);
          a1 = add_triangle 0 (start_v ! BOTTOM) (start_v ! RIGHT) (start_v ! TOP) a0;
          a2 = add_triangle 3 (start_v ! LEFT) (start_v ! BOTTOM) (start_v ! TOP) a1;
          a3 = add_triangle 6 (end_v ! TOP) (end_v ! RIGHT) (end_v ! BOTTOM) a2;
          a4 = add_triangle 9 (end_v ! TOP) (end_v ! BOTTOM) (end_v ! LEFT) a3;
          a5 = add_triangle 12 (start_v ! RIGHT) (end_v ! TOP) (start_v ! TOP) a4;
          a6 = add_triangle 15 (end_v ! RIGHT) (end_v ! TOP) (start_v ! RIGHT) a5;
          a7 = add_triangle 18 (start_v ! LEFT) (end_v ! TOP) (start_v ! TOP) a6;
          a8 = add_triangle 21 (end_v ! LEFT) (end_v ! TOP) (start_v ! LEFT) a7;
          a9 = add_triangle 24 (start_v ! RIGHT) (end_v ! RIGHT) (start_v ! BOTTOM) a8;
          a10 = add_triangle 27 (end_v ! BOTTOM) (start_v ! BOTTOM) (end_v ! RIGHT) a9;
          a11 = add_triangle 30 (start_v ! LEFT) (end_v ! BOTTOM) (start_v ! BOTTOM) a10;
          a12 = add_triangle 33 (end_v ! LEFT) (end_v ! BOTTOM) (start_v ! LEFT) a11
      in a12)"

text \<open>
  The two arrays have 36 rows each and their first \<open>k\<close> rows are written: the state
  of the arrays before the triangle at index \<open>k\<close> is added.
\<close>

definition written :: "vec3 option \<Rightarrow> bool" where
  "written row \<longleftrightarrow> row \<noteq> None"

definition filled :: "nat \<Rightarrow> varray \<times> varray \<Rightarrow> bool" where
  "filled k arrays \<longleftrightarrow>
     length (fst arrays) = 36 \<and> length (snd arrays) = 36
     \<and> list_all written (take k (fst arrays))
     \<and> list_all written (take k (snd arrays))"

text \<open>\<open>_process_segment_worker\<close>\<close>

definition process_segment_worker ::
  "nat \<Rightarrow> Segment \<Rightarrow> real \<Rightarrow> real \<Rightarrow> nat \<times> varray \<times> varray" where
  "process_segment_worker segment_index segment width height =
     (case get_segment_vertices segment width height of
        (vertices, normals) \<Rightarrow> (segment_index, vertices, normals))"

section \<open>Mesh buffer: \<open>Renderer._prepare_geometry\<close>\<close>

text \<open>
  \<open>array[start_idx:end_idx] = rows\<close> on an array of rows: the slice is clipped to the
  array, and NumPy raises \<open>ValueError\<close> unless the rows fit it (a single row would be
  repeated instead; the code never passes one).
\<close>

definition slice_assign :: "'a list \<Rightarrow> nat \<Rightarrow> nat \<Rightarrow> 'a list \<Rightarrow> error + 'a list" where
  "slice_assign arr start_idx end_idx rows =
     (if length rows = min end_idx (length arr) - min start_idx (length arr)
      then Inr (take start_idx arr @ rows @ drop end_idx arr)
      else Inl ValueError)"

text \<open>The loop that copies every worker's result to its place.\<close>

fun scatter ::
  "(nat \<times> varray \<times> varray) list \<Rightarrow> varray \<times> varray \<Rightarrow> error + (varray \<times> varray)" where
  "scatter [] arrays = Inr arrays"
| "scatter ((segment_index, vertices, normals) # rest) arrays =
     (case arrays of (vertex_array, normal_array) \<Rightarrow>
        let vertices_per_segment = 36;
            start_idx = segment_index * vertices_per_segment;
            end_idx = start_idx + vertices_per_segment
        in (case slice_assign vertex_array start_idx end_idx vertices of
              Inl e \<Rightarrow> Inl e
            | Inr vertex_array1 \<Rightarrow>
                (case slice_assign normal_array start_idx end_idx normals of
                   Inl e \<Rightarrow> Inl e
                 | Inr normal_array1 \<Rightarrow> scatter rest (vertex_array1, normal_array1))))"

text \<open>
  The mesh buffer before it is flattened: one row \<open>(vertex, normal)\<close> per vertex. The
  workers of the pool are run in the order of the segments, which is the order in which
  \<open>starmap\<close> returns their results.
\<close>

definition prepare_geometry ::
  "Segment list \<Rightarrow> error + (vec3 option \<times> vec3 option) list" where
  "prepare_geometry segs =
     (let num_segments = length segs;
          vertices_per_segment = 36;
          total_vertices = num_segments * vertices_per_segment;
          vertex_array = replicate total_vertices None;
          normal_array = replicate total_vertices None;
          worker_args = zip [0 ..< num_segments] segs;
          results = map (\<lambda>(i, segment). process_segment_worker i segment 0.3 0.3) worker_args
      in (case scatter results (vertex_array, normal_array) of
            Inl e \<Rightarrow> Inl e
          | Inr (vertex_array1, normal_array1) \<Rightarrow> Inr (zip vertex_array1 normal_array1)))"

section \<open>Camera: \<open>Renderer.get_camera_position\<close>\<close>

text \<open>
  A NumPy float that may be not-a-number: \<open>None\<close> is NaN. \<open>np.sqrt\<close> of a negative
  number is NaN (with a warning, no exception), every comparison with NaN is false, and
  arithmetic on NaN gives NaN.
\<close>

type_synonym npfloat = "real option"

definition np_sqrt :: "real \<Rightarrow> npfloat" where
  "np_sqrt a = (if a < 0 then None else Some (sqrt a))"

definition model_diagonal :: "Bounds \<Rightarrow> real" where
  "model_diagonal b =
     (let model_width = max_x b - min_x b;
          model_height = max_y b - min_y b;
          model_depth = max_z b - min_z b
      in sqrt (model_width\<^sup>2 + model_height\<^sup>2 + model_depth\<^sup>2))"

definition camera_distance :: "Bounds \<Rightarrow> real" where
  "camera_distance b = model_diagonal b * 1.5"

definition camera_height :: "Bounds \<Rightarrow> real" where
  "camera_height b =
     (let model_depth = max_z b - min_z b;
          min_height_offset = max (max (model_diagonal b * 0.5) (model_depth * 1.0)) 2.0
      in max_z b + min_height_offset)"

text \<open>
  \<open>horizontal_distance = np.sqrt(...)\<close> followed by
  \<open>if horizontal_distance <= 0: horizontal_distance = camera_distance\<close>.
\<close>

definition horizontal_distance :: "Bounds \<Rightarrow> npfloat" where
  "horizontal_distance b =
     (let center_z = (min_z b + max_z b) / 2.0
      in (case np_sqrt ((camera_distance b)\<^sup>2 - (camera_height b - center_z)\<^sup>2) of
            None \<Rightarrow> None
          | Some h \<Rightarrow> if h \<le> 0 then Some (camera_distance b) else Some h))"

text \<open>The \<open>match\<close> on the view: no case binds \<open>direction\<close> for an unknown name.\<close>

definition view_direction :: "string \<Rightarrow> error + vec3" where
  "view_direction desired_view =
     (let sqrt2_inv = 1.0 / sqrt 2.0 in
      if desired_view = ''NORTH'' then Inr (0, 1, 0)
      else if desired_view = ''EAST'' then Inr (- 1, 0, 0)
      else if desired_view = ''SOUTH'' then Inr (0, - 1, 0)
      else if desired_view = ''WEST'' then Inr (1, 0, 0)
      else if desired_view = ''NORTH_WEST'' then Inr (sqrt2_inv, sqrt2_inv, 0)
      else if desired_view = ''NORTH_EAST'' then Inr (- sqrt2_inv, sqrt2_inv, 0)
      else if desired_view = ''SOUTH_EAST'' then Inr (- sqrt2_inv, - sqrt2_inv, 0)
      else if desired_view = ''SOUTH_WEST'' then Inr (sqrt2_inv, - sqrt2_inv, 0)
      else Inl UnboundLocalError)"

text \<open>
  \<open>get_camera_position\<close> reads \<open>self._bounds\<close>, which is \<open>None\<close> for a toolpath without
  segments: the first subscript then raises \<open>TypeError\<close>.
\<close>

definition get_camera_position ::
  "Bounds option \<Rightarrow> string \<Rightarrow> error + (npfloat \<times> npfloat \<times> npfloat)" where
  "get_camera_position bounds desired_view =
     (case bounds of
        None \<Rightarrow> Inl TypeError
      | Some b \<Rightarrow>
          (let center_x = (min_x b + max_x b) / 2.0;
               center_y = (min_y b + max_y b) / 2.0
           in (case view_direction desired_view of
                 Inl e \<Rightarrow> Inl e
               | Inr (dx, dy, dz) \<Rightarrow>
                   Inr (map_option (\<lambda>h. center_x + dx * h) (horizontal_distance b),
                        map_option (\<lambda>h. center_y + dy * h) (horizontal_distance b),
                        Some (camera_height b)))))"

section \<open>Rendering: \<open>Renderer.render_view\<close> and \<open>render_gcode\<close> of main.py\<close>

text \<open>
  The calls to the graphics library are parameters: \<open>gpu_setup\<close> is the outcome of
  creating the context, the program and the buffers, and \<open>gpu_draw\<close> is everything
  after the camera position (matrices, uniforms, drawing, reading the image back).
  Either may raise; \<open>render_view\<close> catches nothing.
\<close>

definition render_view ::
  "error + 'ctx \<Rightarrow> ('ctx \<Rightarrow> npfloat \<times> npfloat \<times> npfloat \<Rightarrow> error + 'img)
     \<Rightarrow> Bounds option \<Rightarrow> string \<Rightarrow> error + 'img" where
  "render_view gpu_setup gpu_draw bounds desired_view =
     (case gpu_setup of
        Inl e \<Rightarrow> Inl e
      | Inr ctx \<Rightarrow>
          (case get_camera_position bounds desired_view of
             Inl e \<Rightarrow> Inl e
           | Inr camera_pos \<Rightarrow> gpu_draw ctx camera_pos))"

definition views :: "string list" where
  "views = [''NORTH_WEST'', ''WEST'', ''SOUTH_WEST'', ''SOUTH'',
            ''SOUTH_EAST'', ''EAST'', ''NORTH_EAST'', ''NORTH'']"

text \<open>
  The loop of \<open>render_gcode\<close>: an exception of a view is caught and logged, a view
  counts when its image was rendered and uploaded, and the job succeeds when at least
  one view counts.
\<close>

definition render_gcode ::
  "error + 'ctx \<Rightarrow> ('ctx \<Rightarrow> npfloat \<times> npfloat \<times> npfloat \<Rightarrow> error + 'img)
     \<Rightarrow> (string \<Rightarrow> 'img \<Rightarrow> bool) \<Rightarrow> Bounds option \<Rightarrow> bool" where
  "render_gcode gpu_setup gpu_draw upload bounds =
     (let upload_success_count =
            length (filter (\<lambda>view. case render_view gpu_setup gpu_draw bounds view of
                                     Inl e \<Rightarrow> False
                                   | Inr img \<Rightarrow> upload view img) views)
      in if upload_success_count = length views then True else upload_success_count > 0)"

section \<open>Example inputs\<close>

text \<open>The command \<open>G2 X10 Y0 I5 J0 E1\<close>: a half circle of radius 5 from the origin.\<close>

definition half_circle :: GcodeCommand where
  "half_circle =
     (empty_command ''G2'')\<lparr>X := Some 10, Y := Some 0, I := Some 5, J := Some 0, E := Some 1\<rparr>"

text \<open>
  The command \<open>G2 X-10 Y0 I-5 J0 E1\<close>: the mirrored half circle, which ends at
  \<open>(-10, 0, 0)\<close> when it starts from the origin.
\<close>

definition left_half_circle :: GcodeCommand where
  "left_half_circle =
     (empty_command ''G2'')\<lparr>X := Some (- 10), Y := Some 0, I := Some (- 5), J := Some 0,
                             E := Some 1\<rparr>"

text \<open>The command \<open>G1 X-1\<close>: a move without extrusion to a negative position.\<close>

definition purge_move :: GcodeCommand where
  "purge_move = (empty_command ''G1'')\<lparr>X := Some (- 1)\<rparr>"

text \<open>
  The command \<open>G2 X-11 Y0 I-5 J0 E1\<close>: after \<open>G1 X-1\<close> it is a half circle of
  radius 5 that starts at \<open>(-1, 0, 0)\<close> and ends at \<open>(-11, 0, 0)\<close>.
\<close>

definition purge_half_circle :: GcodeCommand where
  "purge_half_circle =
     (empty_command ''G2'')\<lparr>X := Some (- 11), Y := Some 0, I := Some (- 5), J := Some 0,
                             E := Some 1\<rparr>"

text \<open>A segment of no length, and a segment that runs straight up.\<close>

definition point_segment :: Segment where
  "point_segment = \<lparr>seg_start = (0, 0, 0), seg_end = (0, 0, 0)\<rparr>"

definition vertical_segment :: Segment where
  "vertical_segment = \<lparr>seg_start = (0, 0, 0), seg_end = (0, 0, 1)\<rparr>"

text \<open>A bounding box of one unit along \<open>x\<close>, as a single short segment gives.\<close>

definition small_bounds :: Bounds where
  "small_bounds = \<lparr>min_x = 0, max_x = 1, min_y = 0, max_y = 0, min_z = 0, max_z = 0\<rparr>"

section \<open>Linear moves\<close>


text \<open>
  What one axis does: an absent field keeps the coordinate, a present field other than
  zero replaces it (absolute) or is added to it (relative), and a present zero keeps
  the coordinate in both modes.
\<close>

lemma abs_axis_cases:
  "abs_axis cur None = cur"
  "a \<noteq> 0 \<Longrightarrow> abs_axis cur (Some a) = a"
  "abs_axis cur (Some 0) = cur"
  by (simp_all add: abs_axis_def truthy_def or_else_def)

lemma rel_axis_cases:
  "rel_axis cur None = cur"
  "rel_axis cur (Some a) = cur + a"
  by (simp_all add: rel_axis_def truthy_def or_else_def)

text \<open>
  C1. In absolute mode a present axis field should replace the coordinate, also when
  its value is exactly 0. The code tests the field with \<open>if command.X:\<close>, which is
  false for 0: from the position \<open>(10, 10, 0)\<close> the command \<open>G1 X0 E1\<close> leaves the
  nozzle at \<open>(10, 10, 0)\<close> instead of moving it to \<open>(0, 10, 0)\<close>, and the segment that
  is appended has no length.
\<close>

theorem update_position_absolute_zero_kept:
  "nozzle (dispatch (init_manager\<lparr>nozzle_x := 10, nozzle_y := 10\<rparr>)
             ((empty_command ''G1'')\<lparr>X := Some 0, E := Some 1\<rparr>)) = (10, 10, 0)
   \<and> segments (dispatch (init_manager\<lparr>nozzle_x := 10, nozzle_y := 10\<rparr>)
                 ((empty_command ''G1'')\<lparr>X := Some 0, E := Some 1\<rparr>))
       = [\<lparr>seg_start = (10, 10, 0), seg_end = (10, 10, 0)\<rparr>]"
  by (simp add: dispatch_def update_position_def init_manager_def empty_command_def
      nozzle_def abs_axis_def truthy_def positive_E_def mk_segment_def)

lemma update_position_segments [simp]:
  "segments (fst (update_position self command)) = segments self"
  by (simp add: update_position_def Let_def)



lemma positive_E_iff: "positive_E command \<longleftrightarrow> (\<exists>e. E command = Some e \<and> e > 0)"
  by (cases "E command") (simp_all add: positive_E_def)



section \<open>Arc moves\<close>

lemma arc_loop_zip:
  "arc_loop point idxs prev segs = segs @ zip (prev # map point idxs) (map point idxs)"
  by (induction idxs arbitrary: prev segs) (simp_all add: Let_def)

lemma arc_num_segments_ge_4: "4 \<le> arc_num_segments self command clockwise"
  by (simp add: arc_num_segments_def Let_def)

lemma process_arc_state:
  "fst (process_arc self command clockwise) =
     (case arc_end self command of (end_x, end_y, end_z) \<Rightarrow>
        self\<lparr>nozzle_x := end_x, nozzle_y := end_y, nozzle_z := end_z\<rparr>)"
  by (simp add: process_arc_def Let_def)

lemma process_arc_nozzle:
  "nozzle (fst (process_arc self command clockwise)) = arc_end self command"
  by (cases "arc_end self command") (simp add: process_arc_state nozzle_def)

lemma process_arc_keeps:
  "absolute_movement (fst (process_arc self command clockwise)) = absolute_movement self"
  "segments (fst (process_arc self command clockwise)) = segments self"
  by (cases "arc_end self command"; simp add: process_arc_state)+

lemma process_arc_no_extrusion:
  "\<not> positive_E command \<Longrightarrow> snd (process_arc self command clockwise) = []"
  by (simp add: process_arc_def Let_def)

lemma process_arc_negative_start:
  "nozzle_x self < 0 \<or> nozzle_y self < 0 \<or> nozzle_z self < 0
     \<Longrightarrow> snd (process_arc self command clockwise) = []"
  by (simp add: process_arc_def Let_def)

lemma process_arc_segments:
  assumes "0 \<le> nozzle_x self" "0 \<le> nozzle_y self" "0 \<le> nozzle_z self"
    and "positive_E command" and "0.001 \<le> arc_radius self command"
  shows "snd (process_arc self command clockwise) =
     zip (nozzle self # map (arc_point self command clockwise)
                          [1 .. arc_num_segments self command clockwise])
         (map (arc_point self command clockwise) [1 .. arc_num_segments self command clockwise])"
  using assms by (simp add: process_arc_def Let_def arc_loop_zip nozzle_def not_less [symmetric])

lemma dispatch_arc:
  assumes "ctype command = ''G2'' \<or> ctype command = ''G3''"
  shows "dispatch self command =
     (fst (process_arc self command (ctype command = ''G2'')))
       \<lparr>segments := segments self @
          map mk_segment (snd (process_arc self command (ctype command = ''G2'')))\<rparr>"
proof -
  obtain self1 arc_segments
    where p: "process_arc self command (ctype command = ''G2'') = (self1, arc_segments)"
    by (cases "process_arc self command (ctype command = ''G2'')") auto
  have "segments self1 = segments self"
    using process_arc_keeps(2) [of self command "ctype command = ''G2''"] by (simp add: p)
  with assms p show ?thesis
    by (auto simp add: dispatch_def)
qed

text \<open>
  C10. After a \<open>G2\<close>/\<open>G3\<close> command the nozzle is at the computed end position of the
  arc, whatever the extrusion and from any start position (so also from a non-negative
  one): when \<open>E\<close> is absent or not positive, no segment is appended and the nozzle
  still advances, so that the next move starts from the end position.
\<close>

theorem arc_advances_to_end:
  assumes "ctype command = ''G2'' \<or> ctype command = ''G3''"
  shows "nozzle (dispatch self command) = arc_end self command
       \<and> absolute_movement (dispatch self command) = absolute_movement self
       \<and> ((E command = None \<or> (\<exists>e. E command = Some e \<and> e \<le> 0))
            \<longrightarrow> segments (dispatch self command) = segments self)"
proof -
  have "\<not> positive_E command"
    if "E command = None \<or> (\<exists>e. E command = Some e \<and> e \<le> 0)"
    using that by (auto simp add: positive_E_def)
  then show ?thesis
    unfolding dispatch_arc [OF assms]
    using process_arc_nozzle [of self command "ctype command = ''G2''"]
    by (simp add: nozzle_def process_arc_keeps process_arc_no_extrusion)
qed
lemma pi_ge_3: "3 \<le> pi"
proof -
  have "sin (pi / 6) \<le> pi / 6"
    by (rule sin_x_le_x) simp
  then show ?thesis
    by (simp add: sin_30)
qed

lemma cos_upper:
  fixes x :: real
  assumes "0 < x"
  shows "cos x \<le> 1 - x\<^sup>2 / 2 + x ^ 4 / 24"
proof -
  obtain t where t: "cos x = (\<Sum>m<4. cos_coeff m * x ^ m) + cos (t + 1 / 2 * real 4 * pi) / fact 4 * x ^ 4"
    using Maclaurin_cos_expansion2 [OF assms, of 4] by auto
  have "{..<4::nat} = {0, 1, 2, 3}"
    by auto
  then have s: "(\<Sum>m<4. cos_coeff m * x ^ m) = 1 - x\<^sup>2 / 2"
    by (simp add: cos_coeff_def)
  have f: "fact 4 = (24::real)"
    by (simp add: eval_nat_numeral)
  have "cos (t + 1 / 2 * real 4 * pi) / fact 4 * x ^ 4 \<le> 1 / 24 * x ^ 4"
    unfolding f by (intro mult_right_mono divide_right_mono) simp_all
  with t s show ?thesis by simp
qed

lemma pi_less_16_5: "pi < 16 / 5"
proof (rule ccontr)
  assume "\<not> pi < 16 / 5"
  then have "8 / 5 \<le> pi / 2" by simp
  then have "0 \<le> cos (8 / 5 :: real)"
    by (intro cos_ge_zero) simp_all
  moreover have "cos (8 / 5 :: real) \<le> 1 - (8 / 5)\<^sup>2 / 2 + (8 / 5) ^ 4 / 24"
    by (rule cos_upper) simp
  moreover have "1 - (8 / 5 :: real)\<^sup>2 / 2 + (8 / 5) ^ 4 / 24 < 0"
    by (simp add: power2_eq_square power4_eq_xxxx)
  ultimately show False by linarith
qed

lemma floor_5pi: "\<lfloor>5 * pi\<rfloor> = 15"
  using pi_ge_3 pi_less_16_5 by (intro floor_unique) simp_all

lemma circle_point: "(r * cos a)\<^sup>2 + (r * sin a)\<^sup>2 = (r::real)\<^sup>2"
proof -
  have "(r * cos a)\<^sup>2 + (r * sin a)\<^sup>2 = r\<^sup>2 * ((cos a)\<^sup>2 + (sin a)\<^sup>2)"
    by (simp only: power_mult_distrib distrib_left)
  then show ?thesis by simp
qed

lemma py_int_nonneg: "0 \<le> a \<Longrightarrow> py_int a = \<lfloor>a\<rfloor>"
  by (simp add: py_int_def)

lemma arc_radius_nonneg: "0 \<le> arc_radius self command"
  by (cases "arc_center self command") (simp add: arc_radius_def)

lemma arc_num_segments_floor:
  "arc_num_segments self command clockwise =
     max 4 \<lfloor>\<bar>arc_angle_diff self command clockwise\<bar> * arc_radius self command / 1.0\<rfloor>"
  by (simp add: arc_num_segments_def Let_def py_int_nonneg arc_radius_nonneg)

lemma arc_point_last:
  "arc_point self command clockwise (arc_num_segments self command clockwise)
     = arc_end self command"
  by (cases "arc_center self command"; cases "arc_end self command")
     (simp add: arc_point_def Let_def)

lemma arc_point_on_circle:
  assumes "i \<noteq> arc_num_segments self command clockwise"
  shows "case arc_point self command clockwise i of (x, y, z) \<Rightarrow>
           case arc_center self command of (center_x, center_y, center_z) \<Rightarrow>
             (x - center_x)\<^sup>2 + (y - center_y)\<^sup>2 = (arc_radius self command)\<^sup>2"
  using assms
  by (cases "arc_center self command"; cases "arc_end self command")
     (simp add: arc_point_def Let_def circle_point)

lemma last_upto_1: "1 \<le> n \<Longrightarrow> last [1 .. n] = n"
  by (simp add: upto_rec2)

text \<open>
  C4, amended. For an extruding arc of radius at least \<open>0.001\<close> whose start and end
  positions have no negative coordinate, the number of sub-segments is
  \<open>max(4, floor(|span| * radius / 1.0))\<close>, the last sub-segment ends exactly at the
  computed end position, and the end of every earlier sub-segment lies on the circle
  around the arc centre. The instance below is the half circle \<open>G2 X10 Y0 I5 J0 E1\<close>
  from the origin: 15 segments, every endpoint on the circle of radius 5 around
  \<open>(5, 0, 0)\<close>, the last one ending at \<open>(10, 0, 0)\<close>.
\<close>

theorem arc_subdivision:
  assumes "0 \<le> nozzle_x self" "0 \<le> nozzle_y self" "0 \<le> nozzle_z self"
    and "case arc_end self command of (end_x, end_y, end_z) \<Rightarrow>
           0 \<le> end_x \<and> 0 \<le> end_y \<and> 0 \<le> end_z"
    and "\<exists>e. E command = Some e \<and> e > 0"
    and "0.001 \<le> arc_radius self command"
  shows "int (length (snd (process_arc self command clockwise)))
           = max 4 \<lfloor>\<bar>arc_angle_diff self command clockwise\<bar> * arc_radius self command / 1.0\<rfloor>
       \<and> snd (last (snd (process_arc self command clockwise))) = arc_end self command
       \<and> (\<forall>k. k + 1 < length (snd (process_arc self command clockwise)) \<longrightarrow>
             (case snd (snd (process_arc self command clockwise) ! k) of (x, y, z) \<Rightarrow>
              case arc_center self command of (center_x, center_y, center_z) \<Rightarrow>
                (x - center_x)\<^sup>2 + (y - center_y)\<^sup>2 = (arc_radius self command)\<^sup>2))"
proof -
  define n where "n = arc_num_segments self command clockwise"
  define P where "P = arc_point self command clockwise"
  define segs where "segs = snd (process_arc self command clockwise)"
  have pe: "positive_E command"
    using assms(5) by (simp add: positive_E_iff)
  have segs: "segs = zip (nozzle self # map P [1 .. n]) (map P [1 .. n])"
    unfolding segs_def n_def P_def
    by (rule process_arc_segments [OF assms(1-3) pe assms(6)])
  have n4: "4 \<le> n"
    unfolding n_def by (rule arc_num_segments_ge_4)
  have len: "length segs = nat n"
    by (simp add: segs)
  have ends: "map snd segs = map P [1 .. n]"
    by (simp add: segs map_snd_zip_take)
  have "segs \<noteq> []"
    using len n4 by auto
  then have "snd (last segs) = last (map snd segs)"
    by (simp add: last_map)
  also have "\<dots> = P (last [1 .. n])"
    unfolding ends using n4 by (simp add: last_map)
  also have "\<dots> = arc_end self command"
    using n4 by (simp add: last_upto_1 P_def n_def arc_point_last)
  finally have l: "snd (last segs) = arc_end self command" .
  have c: "case snd (segs ! k) of (x, y, z) \<Rightarrow>
           case arc_center self command of (center_x, center_y, center_z) \<Rightarrow>
             (x - center_x)\<^sup>2 + (y - center_y)\<^sup>2 = (arc_radius self command)\<^sup>2"
    if "k + 1 < length segs" for k
  proof -
    from that len have k: "int k + 1 < n" by simp
    then have "snd (segs ! k) = P (1 + int k)"
      using that len by (simp add: segs)
    moreover have "1 + int k \<noteq> arc_num_segments self command clockwise"
      using k by (simp add: n_def)
    ultimately show ?thesis
      using arc_point_on_circle [of "1 + int k" self command clockwise] by (simp add: P_def)
  qed
  have "int (length segs) = n"
    using len n4 by simp
  with l c show ?thesis
    unfolding segs_def [symmetric] n_def arc_num_segments_floor by blast
qed

lemma atan2_simps:
  "0 < x \<Longrightarrow> atan2 0 x = 0"
  "x < 0 \<Longrightarrow> atan2 0 x = pi"
  by (simp_all add: atan2_def)

lemma half_circle_fields:
  "X half_circle = Some 10" "Y half_circle = Some 0" "Z half_circle = None"
  "I half_circle = Some 5" "J half_circle = Some 0" "K half_circle = None"
  "E half_circle = Some 1" "ctype half_circle = ''G2''"
  by (simp_all add: half_circle_def empty_command_def)

lemma init_manager_fields:
  "nozzle_x init_manager = 0" "nozzle_y init_manager = 0" "nozzle_z init_manager = 0"
  "absolute_movement init_manager" "segments init_manager = []"
  by (simp_all add: init_manager_def)

lemma half_circle_end: "arc_end init_manager half_circle = (10, 0, 0)"
  by (simp add: arc_end_def half_circle_fields init_manager_fields or_else_def)

lemma half_circle_center: "arc_center init_manager half_circle = (5, 0, 0)"
  by (simp add: arc_center_def half_circle_fields init_manager_fields or_else_def)

lemma sqrt_25: "sqrt 25 = 5"
  using real_sqrt_abs [of 5] by simp

lemma half_circle_radius: "arc_radius init_manager half_circle = 5"
  by (simp add: arc_radius_def half_circle_center init_manager_fields sqrt_25)

lemma half_circle_angle_diff: "arc_angle_diff init_manager half_circle True = - pi"
  by (simp add: arc_angle_diff_def arc_start_angle_def arc_end_angle_def half_circle_center
      half_circle_end init_manager_fields atan2_simps)

lemma half_circle_num_segments: "arc_num_segments init_manager half_circle True = 15"
  by (simp add: arc_num_segments_floor half_circle_angle_diff half_circle_radius
      mult.commute [of pi] floor_5pi)

lemma half_circle_point:
  "case arc_point init_manager half_circle True i of (x, y, z) \<Rightarrow>
     (x - 5)\<^sup>2 + y\<^sup>2 = 25 \<and> z = 0"
proof (cases "i = arc_num_segments init_manager half_circle True")
  case True
  then show ?thesis
    by (simp add: arc_point_last half_circle_end)
next
  case False
  obtain x y z where p: "arc_point init_manager half_circle True i = (x, y, z)"
    by (cases "arc_point init_manager half_circle True i") auto
  have "(x - 5)\<^sup>2 + y\<^sup>2 = 25"
    using arc_point_on_circle [OF False] by (simp add: p half_circle_center half_circle_radius)
  moreover have "snd (snd (arc_point init_manager half_circle True i)) = 0"
    using False
    by (simp add: arc_point_def half_circle_center half_circle_end init_manager_fields Let_def)
  then have "z = 0"
    by (simp add: p)
  ultimately show ?thesis
    by (simp add: p)
qed

theorem arc_subdivision_witness:
  "0 \<le> nozzle_x init_manager \<and> 0 \<le> nozzle_y init_manager \<and> 0 \<le> nozzle_z init_manager
   \<and> arc_end init_manager half_circle = (10, 0, 0)
   \<and> E half_circle = Some 1
   \<and> arc_radius init_manager half_circle = 5
   \<and> length (snd (process_arc init_manager half_circle True)) = 15
   \<and> snd (last (snd (process_arc init_manager half_circle True))) = (10, 0, 0)
   \<and> list_all (\<lambda>((x, y, z), (x', y', z')).
                  (x - 5)\<^sup>2 + y\<^sup>2 = 25 \<and> z = 0 \<and> (x' - 5)\<^sup>2 + y'\<^sup>2 = 25 \<and> z' = 0)
        (snd (process_arc init_manager half_circle True))"
proof -
  let ?segs = "snd (process_arc init_manager half_circle True)"
  let ?P = "arc_point init_manager half_circle True"
  have h1: "0 \<le> nozzle_x init_manager" "0 \<le> nozzle_y init_manager" "0 \<le> nozzle_z init_manager"
    by (simp_all add: init_manager_fields)
  have h2: "case arc_end init_manager half_circle of (end_x, end_y, end_z) \<Rightarrow>
              0 \<le> end_x \<and> 0 \<le> end_y \<and> 0 \<le> end_z"
    by (simp add: half_circle_end)
  have h3: "\<exists>e. E half_circle = Some e \<and> e > 0"
    by (simp add: half_circle_fields)
  have h4: "0.001 \<le> arc_radius init_manager half_circle"
    by (simp add: half_circle_radius)
  note A = arc_subdivision [OF h1 h2 h3 h4, of True]
  have "int (length ?segs) = 15"
    using A by (simp add: half_circle_angle_diff half_circle_radius mult.commute [of pi] floor_5pi)
  then have len: "length ?segs = 15"
    by simp
  have lst: "snd (last ?segs) = (10, 0, 0)"
    using A by (simp add: half_circle_end)
  have segs: "?segs = zip (nozzle init_manager # map ?P [1 .. arc_num_segments init_manager half_circle True])
                        (map ?P [1 .. arc_num_segments init_manager half_circle True])"
    by (rule process_arc_segments [OF h1 _ h4]) (simp add: positive_E_def half_circle_fields)
  define Q :: "vec3 \<Rightarrow> bool" where "Q = (\<lambda>(x, y, z). (x - 5)\<^sup>2 + y\<^sup>2 = 25 \<and> z = 0)"
  have Q0: "Q (nozzle init_manager)"
    by (simp add: Q_def nozzle_def init_manager_fields)
  have QP: "Q (?P i)" for i
    using half_circle_point [of i] by (simp add: Q_def)
  have "Q a \<and> Q b" if "(a, b) \<in> set ?segs" for a b
  proof -
    from that have "a \<in> set (nozzle init_manager # map ?P [1 .. arc_num_segments init_manager half_circle True])"
      and "b \<in> set (map ?P [1 .. arc_num_segments init_manager half_circle True])"
      unfolding segs by (auto dest: set_zip_leftD set_zip_rightD)
    then show ?thesis
      using Q0 QP by auto
  qed
  then have "list_all (\<lambda>(a, b). Q a \<and> Q b) ?segs"
    unfolding list_all_iff by auto
  moreover have "(\<lambda>(a, b). Q a \<and> Q b) = (\<lambda>((x, y, z), (x', y', z')).
                  (x - 5)\<^sup>2 + y\<^sup>2 = 25 \<and> z = 0 \<and> (x' - 5)\<^sup>2 + y'\<^sup>2 = 25 \<and> z' = 0)"
    by (auto simp add: Q_def fun_eq_iff)
  ultimately have "list_all (\<lambda>((x, y, z), (x', y', z')).
                  (x - 5)\<^sup>2 + y\<^sup>2 = 25 \<and> z = 0 \<and> (x' - 5)\<^sup>2 + y'\<^sup>2 = 25 \<and> z' = 0) ?segs"
    by simp
  with h1 len lst show ?thesis
    by (simp add: half_circle_end half_circle_fields half_circle_radius)
qed

lemma process_arc_length:
  assumes "0 \<le> nozzle_x self" "0 \<le> nozzle_y self" "0 \<le> nozzle_z self"
    and "positive_E command" and "0.001 \<le> arc_radius self command"
  shows "length (snd (process_arc self command clockwise))
           = nat (arc_num_segments self command clockwise)"
  by (simp add: process_arc_segments [OF assms])

lemma purge_state:
  "dispatch init_manager purge_move = init_manager\<lparr>nozzle_x := - 1\<rparr>"
  by (simp add: dispatch_def purge_move_def empty_command_def update_position_def
      init_manager_def abs_axis_def truthy_def or_else_def positive_E_def)

lemma purge_half_circle_fields:
  "X purge_half_circle = Some (- 11)" "Y purge_half_circle = Some 0"
  "Z purge_half_circle = None" "I purge_half_circle = Some (- 5)"
  "J purge_half_circle = Some 0" "K purge_half_circle = None"
  "E purge_half_circle = Some 1" "ctype purge_half_circle = ''G2''"
  by (simp_all add: purge_half_circle_def empty_command_def)

text \<open>
  C4 as stated, for every extruding arc of radius at least \<open>0.001\<close>, fails for an arc
  that the exclusion of negative positions suppresses: after \<open>G1 X-1\<close> the command
  \<open>G2 X-11 Y0 I-5 J0 E1\<close> has radius 5 and \<open>E = 1\<close>, it starts at \<open>(-1, 0, 0)\<close> and
  ends at \<open>(-11, 0, 0)\<close>, and no segment is emitted, where the count of the claim is
  at least 4.
\<close>

theorem arc_subdivision_counterexample:
  "E purge_half_circle = Some 1
   \<and> nozzle (dispatch init_manager purge_move) = (- 1, 0, 0)
   \<and> arc_end (dispatch init_manager purge_move) purge_half_circle = (- 11, 0, 0)
   \<and> arc_radius (dispatch init_manager purge_move) purge_half_circle = 5
   \<and> snd (process_arc (dispatch init_manager purge_move) purge_half_circle True) = []
   \<and> int (length (snd (process_arc (dispatch init_manager purge_move) purge_half_circle True)))
       \<noteq> max 4 \<lfloor>\<bar>arc_angle_diff (dispatch init_manager purge_move) purge_half_circle True\<bar>
                  * arc_radius (dispatch init_manager purge_move) purge_half_circle / 1.0\<rfloor>"
proof -
  have n: "nozzle (dispatch init_manager purge_move) = (- 1, 0, 0)"
    by (simp add: purge_state nozzle_def init_manager_fields)
  have a: "arc_end (dispatch init_manager purge_move) purge_half_circle = (- 11, 0, 0)"
    by (simp add: purge_state arc_end_def purge_half_circle_fields init_manager_fields
        or_else_def)
  have r: "arc_radius (dispatch init_manager purge_move) purge_half_circle = 5"
    by (simp add: purge_state arc_radius_def arc_center_def purge_half_circle_fields
        init_manager_fields or_else_def sqrt_25)
  have e: "snd (process_arc (dispatch init_manager purge_move) purge_half_circle True) = []"
    by (rule process_arc_negative_start) (simp add: purge_state)
  show ?thesis
    unfolding e r n a by (simp add: purge_half_circle_fields)
qed

lemma left_half_circle_fields:
  "X left_half_circle = Some (- 10)" "Y left_half_circle = Some 0" "Z left_half_circle = None"
  "I left_half_circle = Some (- 5)" "J left_half_circle = Some 0" "K left_half_circle = None"
  "E left_half_circle = Some 1" "ctype left_half_circle = ''G2''"
  by (simp_all add: left_half_circle_def empty_command_def)

lemma left_half_circle_end: "arc_end init_manager left_half_circle = (- 10, 0, 0)"
  by (simp add: arc_end_def left_half_circle_fields init_manager_fields or_else_def)

lemma left_half_circle_center: "arc_center init_manager left_half_circle = (- 5, 0, 0)"
  by (simp add: arc_center_def left_half_circle_fields init_manager_fields or_else_def)

lemma left_half_circle_radius: "arc_radius init_manager left_half_circle = 5"
  by (simp add: arc_radius_def left_half_circle_center init_manager_fields sqrt_25)

lemma left_half_circle_angle_diff: "arc_angle_diff init_manager left_half_circle True = - pi"
  by (simp add: arc_angle_diff_def arc_start_angle_def arc_end_angle_def
      left_half_circle_center left_half_circle_end init_manager_fields atan2_simps)

lemma left_half_circle_num_segments: "arc_num_segments init_manager left_half_circle True = 15"
  by (simp add: arc_num_segments_floor left_half_circle_angle_diff left_half_circle_radius
      mult.commute [of pi] floor_5pi)

text \<open>
  C3. An arc whose end position has a negative coordinate should emit no segment. The
  exclusion of \<open>process_arc\<close> tests the position before the move, not the end
  position: from the origin, \<open>G2 X-10 Y0 I-5 J0 E1\<close> ends at \<open>(-10, 0, 0)\<close> and 15
  segments are appended.
\<close>

theorem arc_to_negative_end_emits:
  "arc_end init_manager left_half_circle = (- 10, 0, 0)
   \<and> nozzle (dispatch init_manager left_half_circle) = (- 10, 0, 0)
   \<and> length (segments (dispatch init_manager left_half_circle)) = 15"
proof -
  have t: "ctype left_half_circle = ''G2'' \<or> ctype left_half_circle = ''G3''"
    by (simp add: left_half_circle_fields)
  have "length (snd (process_arc init_manager left_half_circle True)) = 15"
    by (subst process_arc_length)
       (simp_all add: init_manager_fields positive_E_def left_half_circle_fields
          left_half_circle_radius left_half_circle_num_segments)
  then show ?thesis
    unfolding dispatch_arc [OF t]
    using process_arc_nozzle [of init_manager left_half_circle True]
    by (simp add: left_half_circle_fields left_half_circle_end init_manager_fields nozzle_def)
qed

text \<open>The half circle without \<open>E\<close>, from the origin: the nozzle moves, no segment.\<close>

theorem arc_advances_to_end_witness:
  "ctype (half_circle\<lparr>E := None\<rparr>) = ''G2''
   \<and> E (half_circle\<lparr>E := None\<rparr>) = None
   \<and> nozzle (dispatch init_manager (half_circle\<lparr>E := None\<rparr>)) = (10, 0, 0)
   \<and> segments (dispatch init_manager (half_circle\<lparr>E := None\<rparr>)) = []"
proof -
  have t: "ctype (half_circle\<lparr>E := None\<rparr>) = ''G2'' \<or> ctype (half_circle\<lparr>E := None\<rparr>) = ''G3''"
    by (simp add: half_circle_fields)
  have e: "arc_end init_manager (half_circle\<lparr>E := None\<rparr>) = (10, 0, 0)"
    by (simp add: arc_end_def half_circle_fields init_manager_fields or_else_def)
  from arc_advances_to_end [OF t, of init_manager] show ?thesis
    by (simp add: e half_circle_fields init_manager_fields)
qed

section \<open>Tube mesh\<close>

lemma filled_init: "filled 0 (replicate 36 None, replicate 36 None)"
  by (simp add: filled_def)

lemma take_update3:
  assumes "idx + 3 \<le> length xs" and "list_all P (take idx xs)" and "P a" "P b" "P c"
  shows "list_all P (take (idx + 3) (xs[idx := a, idx + 1 := b, idx + 2 := c]))"
proof -
  have "list_all P (take (idx + 3) (xs[idx := a, idx + 1 := b, idx + 2 := c])) \<longleftrightarrow>
        (\<forall>i < idx + 3. P (xs[idx := a, idx + 1 := b, idx + 2 := c] ! i))"
    using assms(1) by (simp add: list_all_length)
  moreover have "P (xs[idx := a, idx + 1 := b, idx + 2 := c] ! i)" if "i < idx + 3" for i
  proof (cases "i < idx")
    case True
    then have "xs[idx := a, idx + 1 := b, idx + 2 := c] ! i = take idx xs ! i"
      by simp
    moreover have "P (take idx xs ! i)"
      using assms(1,2) True by (simp add: list_all_length)
    ultimately show ?thesis by simp
  next
    case False
    with that have "i = idx \<or> i = idx + 1 \<or> i = idx + 2"
      by arith
    then show ?thesis
      using assms(1,3-5) by (auto simp add: nth_list_update)
  qed
  ultimately show ?thesis by blast
qed

lemma add_triangle_filled:
  assumes "filled idx arrays" and "k = idx + 3" and "k \<le> 36"
  shows "filled k (add_triangle idx v0 v1 v2 arrays)"
proof -
  obtain vs ns where a: "arrays = (vs, ns)"
    by (cases arrays) auto
  from assms(1) have l: "length vs = 36" "length ns = 36"
    and p: "list_all written (take idx vs)" "list_all written (take idx ns)"
    by (simp_all add: filled_def a)
  have i: "idx + 3 \<le> length vs" "idx + 3 \<le> length ns"
    using assms(2,3) l by simp_all
  have "list_all written (take (idx + 3) (vs[idx := Some v0, idx + 1 := Some v1, idx + 2 := Some v2]))"
    by (rule take_update3 [OF i(1) p(1)]) (simp_all add: written_def)
  moreover have "list_all written (take (idx + 3) (ns[idx := Some (calculate_normal v0 v1 v2),
      idx + 1 := Some (calculate_normal v0 v1 v2), idx + 2 := Some (calculate_normal v0 v1 v2)]))"
    by (rule take_update3 [OF i(2) p(2)]) (simp_all add: written_def)
  ultimately show ?thesis
    unfolding assms(2) filled_def add_triangle_def a Let_def
    using l by simp
qed

lemma get_segment_vertices_filled: "filled 36 (get_segment_vertices segment width height)"
  unfolding get_segment_vertices_def Let_def
  by (intro add_triangle_filled filled_init) simp_all

lemma all_written:
  assumes "list_all written xs"
  shows "map Some (map the xs) = xs"
  using assms by (induction xs) (auto simp add: written_def)

lemma get_segment_vertices_rows:
  "\<exists>vs ns. get_segment_vertices segment width height = (map Some vs, map Some ns)
     \<and> length vs = 36 \<and> length ns = 36"
proof -
  obtain va na where g: "get_segment_vertices segment width height = (va, na)"
    by (cases "get_segment_vertices segment width height") auto
  note F = get_segment_vertices_filled [of segment width height, unfolded g filled_def fst_conv snd_conv]
  from F have lv: "length va = 36" and ln: "length na = 36"
    by blast+
  from F have "list_all written (take 36 va)" and "list_all written (take 36 na)"
    by blast+
  with lv ln have "list_all written va" and "list_all written na"
    by simp_all
  then have "map Some (map the va) = va" and "map Some (map the na) = na"
    by (simp_all only: all_written)
  with lv ln have "(va, na) = (map Some (map the va), map Some (map the na))
      \<and> length (map the va) = 36 \<and> length (map the na) = 36"
    by (simp del: map_map)
  then show ?thesis
    unfolding g by blast
qed

lemma get_segment_vertices_length:
  "length (fst (get_segment_vertices segment width height)) = 36"
  "length (snd (get_segment_vertices segment width height)) = 36"
  using get_segment_vertices_filled [of segment width height]
  by (simp_all add: filled_def)

lemma slice_assign_next:
  assumes "length pre = start_idx" and "length rows = 36" and "end_idx = start_idx + 36"
  shows "slice_assign (pre @ replicate (36 * Suc m) None) start_idx end_idx rows
           = Inr ((pre @ rows) @ replicate (36 * m) None)"
proof -
  have "replicate (36 * Suc m) None = replicate 36 None @ replicate (36 * m) (None :: 'a option)"
    by (simp add: replicate_add [symmetric])
  then have "drop end_idx (pre @ replicate (36 * Suc m) None) = replicate (36 * m) (None :: 'a option)"
    using assms by simp
  then show ?thesis
    using assms by (simp add: slice_assign_def)
qed

lemma scatter_all:
  assumes "length pv = 36 * k" and "length pn = 36 * k"
  shows "scatter (map (\<lambda>(i, segment). process_segment_worker i segment w h)
                    (zip [k ..< k + length segs] segs))
           (pv @ replicate (36 * length segs) None, pn @ replicate (36 * length segs) None)
         = Inr (pv @ concat (map (\<lambda>s. fst (get_segment_vertices s w h)) segs),
                pn @ concat (map (\<lambda>s. snd (get_segment_vertices s w h)) segs))"
  using assms
proof (induction segs arbitrary: k pv pn)
  case Nil
  then show ?case by simp
next
  case (Cons s segs)
  obtain vs ns where g: "get_segment_vertices s w h = (vs, ns)"
    by (cases "get_segment_vertices s w h") auto
  have l: "length vs = 36" "length ns = 36"
    using get_segment_vertices_length [of s w h] by (simp_all add: g)
  have z: "zip [k ..< k + length (s # segs)] (s # segs)
             = (k, s) # zip [Suc k ..< Suc k + length segs] segs"
  proof -
    have "[k ..< k + length (s # segs)] = k # [Suc k ..< Suc k + length segs]"
      using upt_conv_Cons [of k "k + length (s # segs)"] by simp
    then show ?thesis by (simp only: zip_Cons_Cons)
  qed
  define W where "W = (\<lambda>(i, segment). process_segment_worker i segment w h)"
  have sv: "slice_assign (pv @ replicate (36 * length (s # segs)) None) (k * 36) (k * 36 + 36) vs
              = Inr ((pv @ vs) @ replicate (36 * length segs) None)"
    unfolding length_Cons by (rule slice_assign_next) (simp_all add: Cons.prems l)
  have sn: "slice_assign (pn @ replicate (36 * length (s # segs)) None) (k * 36) (k * 36 + 36) ns
              = Inr ((pn @ ns) @ replicate (36 * length segs) None)"
    unfolding length_Cons by (rule slice_assign_next) (simp_all add: Cons.prems l)
  have ih: "scatter (map W (zip [Suc k ..< Suc k + length segs] segs))
              ((pv @ vs) @ replicate (36 * length segs) None,
               (pn @ ns) @ replicate (36 * length segs) None)
            = Inr ((pv @ vs) @ concat (map (\<lambda>s. fst (get_segment_vertices s w h)) segs),
                   (pn @ ns) @ concat (map (\<lambda>s. snd (get_segment_vertices s w h)) segs))"
    unfolding W_def by (rule Cons.IH) (simp_all add: Cons.prems l)
  have wk: "W (k, s) = (k, vs, ns)"
    by (simp add: W_def process_segment_worker_def g)
  have "scatter (map W (zip [k ..< k + length (s # segs)] (s # segs)))
          (pv @ replicate (36 * length (s # segs)) None, pn @ replicate (36 * length (s # segs)) None)
        = scatter (map W (zip [Suc k ..< Suc k + length segs] segs))
              ((pv @ vs) @ replicate (36 * length segs) None,
               (pn @ ns) @ replicate (36 * length segs) None)"
    unfolding z by (simp only: list.map wk scatter.simps prod.case Let_def sv sn sum.case)
  also note ih
  finally show ?case
    unfolding W_def by (simp add: g)
qed

lemma prepare_geometry_result:
  "prepare_geometry segs =
     Inr (zip (concat (map (\<lambda>s. fst (get_segment_vertices s 0.3 0.3)) segs))
              (concat (map (\<lambda>s. snd (get_segment_vertices s 0.3 0.3)) segs)))"
  using scatter_all [of "[]" 0 "[]" "0.3" "0.3" segs]
  by (simp add: prepare_geometry_def Let_def mult.commute)

lemma concat_length_36:
  assumes "\<And>s. length (f s) = 36"
  shows "length (concat (map f segs)) = 36 * length segs"
  by (induction segs) (simp_all add: assms)

lemma prepare_geometry_length:
  "\<exists>mesh. prepare_geometry segs = Inr mesh \<and> length mesh = 36 * length segs"
  by (simp add: prepare_geometry_result concat_length_36 get_segment_vertices_length)

lemma get_segment_vertices_written:
  "list_all written (fst (get_segment_vertices segment width height))"
  "list_all written (snd (get_segment_vertices segment width height))"
  using get_segment_vertices_filled [of segment width height]
    get_segment_vertices_length [of segment width height]
  by (simp_all add: filled_def)

lemma concat_written:
  assumes "\<And>s. list_all written (f s)"
  shows "list_all written (concat (map f segs))"
  by (induction segs) (simp_all add: assms)

lemma prepare_geometry_written:
  "prepare_geometry segs = Inr mesh \<Longrightarrow> list_all (\<lambda>(v, n). written v \<and> written n) mesh"
proof -
  assume "prepare_geometry segs = Inr mesh"
  then have m: "mesh = zip (concat (map (\<lambda>s. fst (get_segment_vertices s 0.3 0.3)) segs))
                          (concat (map (\<lambda>s. snd (get_segment_vertices s 0.3 0.3)) segs))"
    by (simp add: prepare_geometry_result)
  have "written v \<and> written n" if "(v, n) \<in> set mesh" for v n
  proof -
    from that have "v \<in> set (concat (map (\<lambda>s. fst (get_segment_vertices s 0.3 0.3)) segs))"
      and "n \<in> set (concat (map (\<lambda>s. snd (get_segment_vertices s 0.3 0.3)) segs))"
      unfolding m by (rule set_zip_leftD, rule set_zip_rightD)
    moreover have "list_all written (concat (map (\<lambda>s. fst (get_segment_vertices s 0.3 0.3)) segs))"
      and "list_all written (concat (map (\<lambda>s. snd (get_segment_vertices s 0.3 0.3)) segs))"
      by (rule concat_written, rule get_segment_vertices_written)+
    ultimately show ?thesis
      unfolding list_all_iff by blast
  qed
  then show ?thesis
    unfolding list_all_iff by blast
qed

lemma seg_direction_degenerate:
  "seg_start segment = seg_end segment \<Longrightarrow> seg_direction segment = (1, 0, 0)"
  by (cases "seg_end segment") (simp add: seg_direction_def vsub_def norm3_def)

lemma seg_right_parallel:
  "seg_direction segment = (0, 0, c) \<Longrightarrow> seg_right segment = (1, 0, 0)"
  by (simp add: seg_right_def cross_def up_def norm3_def)

lemma calculate_normal_degenerate:
  "cross (vsub v1 v0) (vsub v2 v0) = (0, 0, 0) \<Longrightarrow> calculate_normal v0 v1 v2 = (0, 0, 1)"
  by (simp add: calculate_normal_def norm3_def)

text \<open>
  C5. For every segment, also a degenerate one, \<open>get_segment_vertices\<close> returns 36
  vertices and 36 normals, every row written; the mesh buffer of a list of segments is
  built without error and has 36 rows per segment. A segment of no length gets the
  direction \<open>+X\<close>, a direction parallel to \<open>up\<close> gets the right vector \<open>+X\<close>, and a
  triangle whose cross product vanishes gets the normal \<open>(0, 0, 1)\<close>.
\<close>

theorem tube_mesh_size:
  "(\<exists>vs ns. get_segment_vertices segment width height = (map Some vs, map Some ns)
       \<and> length vs = 36 \<and> length ns = 36)
   \<and> (\<exists>mesh. prepare_geometry segs = Inr mesh \<and> length mesh = 36 * length segs
         \<and> list_all (\<lambda>(v, n). v \<noteq> None \<and> n \<noteq> None) mesh)
   \<and> (seg_start degenerate = seg_end degenerate \<longrightarrow> seg_direction degenerate = (1, 0, 0))
   \<and> ((\<exists>c. seg_direction vertical = (0, 0, c)) \<longrightarrow> seg_right vertical = (1, 0, 0))
   \<and> (cross (vsub v1 v0) (vsub v2 v0) = (0, 0, 0) \<longrightarrow> calculate_normal v0 v1 v2 = (0, 0, 1))"
proof -
  obtain mesh where m: "prepare_geometry segs = Inr mesh" "length mesh = 36 * length segs"
    using prepare_geometry_length [of segs] by blast
  have "list_all (\<lambda>(v, n). v \<noteq> None \<and> n \<noteq> None) mesh"
    using prepare_geometry_written [OF m(1)] by (simp add: written_def)
  with m have "\<exists>mesh. prepare_geometry segs = Inr mesh \<and> length mesh = 36 * length segs
         \<and> list_all (\<lambda>(v, n). v \<noteq> None \<and> n \<noteq> None) mesh"
    by blast
  then show ?thesis
    using get_segment_vertices_rows [of segment width height]
      seg_direction_degenerate [of degenerate] seg_right_parallel [of vertical]
      calculate_normal_degenerate [of v1 v0 v2]
    by blast
qed

theorem tube_mesh_size_witness:
  "seg_start point_segment = seg_end point_segment
   \<and> seg_direction point_segment = (1, 0, 0)
   \<and> seg_direction vertical_segment = (0, 0, 1)
   \<and> seg_right vertical_segment = (1, 0, 0)
   \<and> cross (vsub (0, 0, 0) (0, 0, 0)) (vsub (0, 0, 0) (0, 0, 0)) = (0, 0, 0)
   \<and> calculate_normal (0, 0, 0) (0, 0, 0) (0, 0, 0) = (0, 0, 1)
   \<and> (\<exists>vs ns. get_segment_vertices point_segment 0.3 0.3 = (map Some vs, map Some ns)
         \<and> length vs = 36 \<and> length ns = 36)
   \<and> (\<exists>mesh. prepare_geometry [point_segment, vertical_segment] = Inr mesh \<and> length mesh = 72)"
proof -
  have d: "seg_direction vertical_segment = (0, 0, 1)"
    by (simp add: seg_direction_def vertical_segment_def vsub_def norm3_def vdiv_def)
  have p: "seg_start point_segment = seg_end point_segment"
    by (simp add: point_segment_def)
  have c: "cross (vsub (0, 0, 0) (0, 0, 0)) (vsub (0, 0, 0) (0, 0, 0)) = (0, 0, 0)"
    by (simp add: cross_def vsub_def)
  from tube_mesh_size [of point_segment "0.3" "0.3" "[point_segment, vertical_segment]"
      point_segment vertical_segment "(0, 0, 0)" "(0, 0, 0)" "(0, 0, 0)"]
  show ?thesis
    using d p c by auto
qed

section \<open>Parsing\<close>

text \<open>
  The constructor of a command raises exactly on a line of white space only, a number
  that cannot be read leaves the command as it was, and the parse of a text without
  such a line returns a manager.
\<close>

lemma split_from_empty_iff:
  "split_from s cur = [] \<longleftrightarrow> cur = [] \<and> list_all is_space s"
  by (induction s arbitrary: cur) auto

lemma split_ws_empty_iff: "split_ws s = [] \<longleftrightarrow> list_all is_space s"
  by (simp add: split_ws_def split_from_empty_iff)

lemma GcodeCommand_init_raises_iff:
  "GcodeCommand_init pyfloat command_string = Inl IndexError \<longleftrightarrow> list_all is_space command_string"
  by (cases "split_ws command_string")
     (simp_all add: GcodeCommand_init_def split_ws_empty_iff [symmetric])

lemma assign_field_malformed:
  "length param > 1 \<Longrightarrow> pyfloat (tl param) = None
     \<Longrightarrow> assign_field pyfloat param store command = command"
  by (simp add: assign_field_def)

lemma set_param_malformed:
  "length param > 1 \<Longrightarrow> pyfloat (tl param) = None \<Longrightarrow> set_param pyfloat param command = command"
  by (cases param) (simp_all add: set_param_def assign_field_def)

lemma parse_lines_total:
  assumes "list_all (\<lambda>line. line = [] \<or> take 1 line = '';'' \<or> \<not> list_all is_space line) lines"
  shows "\<exists>manager. parse_lines pyfloat self lines = Inr manager"
  using assms
proof (induction lines arbitrary: self)
  case Nil
  then show ?case by simp
next
  case (Cons line lines)
  show ?case
  proof (cases "length line = 0 \<or> take 1 line = '';''")
    case True
    then show ?thesis
      using Cons by simp
  next
    case False
    with Cons.prems have "\<not> list_all is_space line"
      by auto
    then obtain command where "GcodeCommand_init pyfloat line = Inr command"
      using GcodeCommand_init_raises_iff [of pyfloat line]
      by (cases "GcodeCommand_init pyfloat line") (auto simp add: GcodeCommand_init_def split: list.splits)
    then show ?thesis
      using Cons False by simp
  qed
qed

text \<open>
  C6. Parsing should return for every input text, also one with a line of white space
  only. \<open>parse_gcode\<close> skips a line only when it is empty or starts with \<open>;\<close>; on a
  line that holds a single space \<open>split()\<close> returns no token and \<open>split[0]\<close> raises
  \<open>IndexError\<close>, which nothing catches: the text \<open>G90\<close>, a line with one space,
  \<open>G1 X1 E1\<close> has no result, whatever \<open>float\<close> does.
\<close>

theorem blank_line_aborts_parse:
  "splitlines (''G90'' @ [CHR 0x0A] @ '' '' @ [CHR 0x0A] @ ''G1 X1 E1'')
     = [''G90'', '' '', ''G1 X1 E1'']
   \<and> parse_gcode pyfloat (''G90'' @ [CHR 0x0A] @ '' '' @ [CHR 0x0A] @ ''G1 X1 E1'')
       = Inl IndexError"
proof -
  have l: "splitlines (''G90'' @ [CHR 0x0A] @ '' '' @ [CHR 0x0A] @ ''G1 X1 E1'')
     = [''G90'', '' '', ''G1 X1 E1'']"
    by (simp add: splitlines_def is_linebreak_def)
  have c: "GcodeCommand_init pyfloat ''G90'' = Inr (empty_command ''G90'')"
    by (simp add: GcodeCommand_init_def split_ws_def is_space_def)
  have b: "GcodeCommand_init pyfloat '' '' = Inl IndexError"
    by (simp add: GcodeCommand_init_def split_ws_def is_space_def)
  show ?thesis
    unfolding parse_gcode_def l by (simp add: c b)
qed

section \<open>Rendering a toolpath without segments\<close>

lemma get_bounds_empty: "get_bounds segs = None \<longleftrightarrow> segs = []"
  by (simp add: get_bounds_def Let_def)

lemma render_view_no_bounds: "\<exists>e. render_view gpu_setup gpu_draw None desired_view = Inl e"
  by (cases gpu_setup) (simp_all add: render_view_def get_camera_position_def)

lemma render_gcode_no_bounds: "\<not> render_gcode gpu_setup gpu_draw upload None"
proof -
  have "(case render_view gpu_setup gpu_draw None view of Inl e \<Rightarrow> False | Inr img \<Rightarrow> upload view img) = False"
    for view
    using render_view_no_bounds [of gpu_setup gpu_draw view] by auto
  then show ?thesis
    by (simp add: render_gcode_def views_def)
qed

text \<open>
  C7, amended. When no segment was produced the bounds are absent, and rendering a view
  is not skipped: \<open>render_view\<close> raises for every view, whatever the graphics calls do
  (\<open>get_camera_position\<close> subscripts the absent bounds), and \<open>render_gcode\<close>, which
  catches and logs the exception of each view, reports the job as failed.
\<close>

theorem empty_toolpath_render_fails:
  "get_bounds [] = None
   \<and> (\<exists>e. render_view gpu_setup gpu_draw (get_bounds []) desired_view = Inl e)
   \<and> \<not> render_gcode gpu_setup gpu_draw upload (get_bounds [])"
proof -
  have "get_bounds [] = None"
    by (simp add: get_bounds_empty)
  then show ?thesis
    using render_view_no_bounds [of gpu_setup gpu_draw desired_view]
      render_gcode_no_bounds [of gpu_setup gpu_draw upload]
    by simp
qed

text \<open>
  C7 as stated says that \<open>render_view\<close> does not raise on an empty toolpath. With
  graphics calls that never fail, it raises \<open>TypeError\<close>.
\<close>

theorem empty_toolpath_render_counterexample:
  "get_bounds [] = None
   \<and> render_view (Inr ()) (\<lambda>ctx camera_pos. Inr ()) (get_bounds []) ''NORTH'' = Inl TypeError"
  by (simp add: get_bounds_def render_view_def get_camera_position_def)

section \<open>Camera\<close>

lemma small_bounds_fields:
  "min_x small_bounds = 0" "max_x small_bounds = 1" "min_y small_bounds = 0"
  "max_y small_bounds = 0" "min_z small_bounds = 0" "max_z small_bounds = 0"
  by (simp_all add: small_bounds_def)

lemma small_bounds_camera:
  "model_diagonal small_bounds = 1" "camera_distance small_bounds = 3 / 2"
  "camera_height small_bounds = 2"
  by (simp_all add: model_diagonal_def camera_distance_def camera_height_def small_bounds_fields)

lemma small_bounds_horizontal: "horizontal_distance small_bounds = None"
  by (simp add: horizontal_distance_def np_sqrt_def small_bounds_camera small_bounds_fields
      power2_eq_square)

text \<open>
  C8. When the subtraction under the square root is not positive the planner should
  fall back to the camera distance, so that the position is a number. For the bounds of
  a model of one unit the subtraction is \<open>2.25 - 4\<close>: \<open>np.sqrt\<close> gives NaN, the test
  \<open>horizontal_distance <= 0\<close> is false on NaN, and the camera position of the view
  \<open>NORTH\<close> is \<open>(NaN, NaN, 2)\<close>.
\<close>

theorem camera_fallback_missed:
  "(camera_distance small_bounds)\<^sup>2
      - (camera_height small_bounds - (min_z small_bounds + max_z small_bounds) / 2.0)\<^sup>2 < 0
   \<and> horizontal_distance small_bounds = None
   \<and> get_camera_position (Some small_bounds) ''NORTH'' = Inr (None, None, Some 2)"
  by (simp add: get_camera_position_def view_direction_def small_bounds_horizontal
      small_bounds_camera small_bounds_fields power2_eq_square)

text \<open>
  C9. The eight camera positions should be at one distance from the centre of the
  bounds in the horizontal plane, at one height. For the bounds of a model of one unit
  the height is 2 for every view, but both horizontal coordinates of all eight
  positions are NaN, so that the positions have no distance from the centre.
\<close>

theorem camera_positions_small_model:
  "length views = 8
   \<and> map (get_camera_position (Some small_bounds)) views
       = replicate (length views) (Inr (None, None, Some 2))"
  by (simp add: views_def get_camera_position_def view_direction_def small_bounds_horizontal
      small_bounds_camera Let_def)

text \<open>
  The three cases of the horizontal distance, and the placement of the views where it
  is a number: every view of the list is then at that distance from the centre of the
  bounds, at the camera height.
\<close>

lemma horizontal_distance_cases:
  fixes b :: Bounds
  defines "d \<equiv> (camera_distance b)\<^sup>2 - (camera_height b - (min_z b + max_z b) / 2.0)\<^sup>2"
  shows "0 < d \<Longrightarrow> horizontal_distance b = Some (sqrt d)"
    and "d = 0 \<Longrightarrow> horizontal_distance b = Some (camera_distance b)"
    and "d < 0 \<Longrightarrow> horizontal_distance b = None"
  by (simp_all add: horizontal_distance_def np_sqrt_def d_def Let_def)

lemma view_direction_unit:
  assumes "desired_view \<in> set views"
  shows "\<exists>dx dy. view_direction desired_view = Inr (dx, dy, 0) \<and> dx\<^sup>2 + dy\<^sup>2 = 1"
proof -
  have s: "(1 / sqrt 2)\<^sup>2 + (1 / sqrt 2)\<^sup>2 = (1::real)"
    by (simp add: power_divide)
  from assms show ?thesis
    using s by (auto simp add: views_def view_direction_def Let_def)
qed

lemma camera_positions_equidistant:
  assumes "horizontal_distance b = Some h" and "desired_view \<in> set views"
  shows "\<exists>x y. get_camera_position (Some b) desired_view
                  = Inr (Some x, Some y, Some (camera_height b))
           \<and> (x - (min_x b + max_x b) / 2)\<^sup>2 + (y - (min_y b + max_y b) / 2)\<^sup>2 = h\<^sup>2"
proof -
  obtain dx dy where v: "view_direction desired_view = Inr (dx, dy, 0)" and u: "dx\<^sup>2 + dy\<^sup>2 = 1"
    using view_direction_unit [OF assms(2)] by blast
  have "(dx * h)\<^sup>2 + (dy * h)\<^sup>2 = (dx\<^sup>2 + dy\<^sup>2) * h\<^sup>2"
    by (simp add: power_mult_distrib distrib_right)
  then have "(dx * h)\<^sup>2 + (dy * h)\<^sup>2 = h\<^sup>2"
    by (simp add: u)
  then show ?thesis
    by (simp add: get_camera_position_def v assms(1) Let_def)
qed

end
